theory Spec2Isabelle
  imports Complex_Main
begin

section \<open>Guster gesture daemon: the gesture collector\<close>

text \<open>
  The class \<open>GestureCollector\<close> of \<^verbatim>\<open>Guster-daemon.py\<close> holds one in-flight gesture.
  Its fields become a record and each method takes the state and returns the new one.
  Python floats are modelled by \<^typ>\<open>real\<close>: rounding, infinities and NaN are abstracted
  away. \<open>time.time()\<close> is an input of the model (the argument \<open>now\<close>).

  Every method body runs inside \<open>with self.lock\<close>, and \<open>self.lock\<close> is a
  \<open>threading.Lock\<close>, which is not re-entrant: a thread that acquires it while holding it
  waits forever. The daemon has one thread, so between two method calls the lock is
  free, and the only thing to model is a method that calls another method while it
  holds the lock. A call therefore has three possible results.
\<close>

datatype error = ValueError string | IndexError

datatype 'a outcome =
  Returns 'a
| Raises error
| Blocks

record collector =
  active :: bool
  fingers :: int
  total_dx :: real
  total_dy :: real
  last_time :: "real option"

text \<open>
  \<open>reset\<close> acquires \<open>self.lock\<close> (the \<open>getattr\<close> default is used only before \<open>__init__\<close>
  has set the attribute). The argument \<open>lock_held\<close> tells whether the caller holds the
  lock already; then the acquisition never succeeds. Otherwise every field is
  overwritten.
\<close>

definition collector_reset :: "bool \<Rightarrow> collector \<Rightarrow> collector outcome" where
  "collector_reset lock_held s =
     (if lock_held then Blocks
      else Returns
        (s\<lparr>active := False, fingers := 0, total_dx := 0, total_dy := 0, last_time := None\<rparr>))"

text \<open>
  The state after \<open>__init__\<close>, which creates the lock and calls \<open>reset\<close> without
  holding it.
\<close>

definition collector_init :: collector where
  "collector_init =
     \<lparr>active = False, fingers = 0, total_dx = 0, total_dy = 0, last_time = None\<rparr>"

definition collector_begin :: "real \<Rightarrow> int \<Rightarrow> collector \<Rightarrow> collector" where
  "collector_begin now n s =
     s\<lparr>active := True, fingers := n, total_dx := 0, total_dy := 0, last_time := Some now\<rparr>"

definition collector_update :: "real \<Rightarrow> real \<Rightarrow> real \<Rightarrow> collector \<Rightarrow> collector" where
  "collector_update now dx dy s =
     (if \<not> active s then s
      else s\<lparr>total_dx := total_dx s + dx, total_dy := total_dy s + dy,
             last_time := Some now\<rparr>)"

text \<open>
  \<open>end\<close> returns \<open>None\<close> when no gesture is in flight. Otherwise it reads the totals and
  calls \<open>self.reset()\<close> from inside its own \<open>with self.lock\<close> block (line 109), so the
  lock is held at that call; the triple \<open>(f, dx, dy)\<close> is returned only if \<open>reset\<close>
  returns.
\<close>

definition collector_end ::
  "int \<Rightarrow> collector \<Rightarrow> ((int \<times> real \<times> real) option \<times> collector) outcome" where
  "collector_end n s =
     (if \<not> active s then Returns (None, s)
      else
        (case collector_reset True s of
           Returns s' \<Rightarrow> Returns (Some (n, total_dx s, total_dy s), s')
         | Raises e \<Rightarrow> Raises e
         | Blocks \<Rightarrow> Blocks))"

text \<open>A run of \<open>update\<close> calls, each with the clock value read during the call.\<close>

fun collector_updates :: "(real \<times> real \<times> real) list \<Rightarrow> collector \<Rightarrow> collector" where
  "collector_updates [] s = s"
| "collector_updates ((now, dx, dy) # us) s = collector_updates us (collector_update now dx dy s)"


section \<open>The direction classifier\<close>

record threshold =
  px_min :: real
  axis_ratio :: real

text \<open>
  \<open>determine_direction\<close> returns one of the strings \<open>right\<close>, \<open>left\<close>, \<open>down\<close>, \<open>up\<close>,
  or Python's \<open>None\<close>.
\<close>

definition determine_direction :: "real \<Rightarrow> real \<Rightarrow> threshold \<Rightarrow> string option" where
  "determine_direction dx dy th =
     (let ax = \<bar>dx\<bar>; ay = \<bar>dy\<bar> in
      if max ax ay < px_min th then None
      else if ax \<ge> ay * axis_ratio th then Some (if dx > 0 then ''right'' else ''left'')
      else if ay \<ge> ax * axis_ratio th then Some (if dy > 0 then ''down'' else ''up'')
      else None)"

text \<open>The threshold of \<open>CONFIG_DEFAULT\<close>.\<close>

definition default_threshold :: threshold where
  "default_threshold = \<lparr>px_min = 50, axis_ratio = 3 / 2\<rparr>"











section \<open>Dispatch of a finished gesture\<close>

text \<open>
  What the daemon does to the outside world is recorded as a trace of events: each
  \<open>print\<close>, each \<open>subprocess.Popen\<close> of a mapped command, and the \<open>terminate\<close> of the
  producer process.
\<close>

datatype event =
  Print_listening
| Print_ignored int real real
| Print_detected int string string
| Print_no_mapping string
| Print_would_execute string
| Popen_shell string
| Print_executed string
| Print_failed string
| Print_error error
| Proc_terminate

record config =
  cfg_threshold :: threshold
  cfg_gestures :: "string \<rightharpoonup> string"

text \<open>
  \<open>execute_action\<close>: an empty command does nothing; a dry run only prints. Otherwise the
  command is handed to the shell; whether \<open>Popen\<close> raises is decided by the system, so
  it is the parameter \<open>launch\<close> (true when \<open>Popen\<close> returns).
\<close>

definition execute_action :: "(string \<Rightarrow> bool) \<Rightarrow> string \<Rightarrow> bool \<Rightarrow> event list" where
  "execute_action launch command dry_run =
     (if command = [] then []
      else if dry_run then [Print_would_execute command]
      else if launch command then [Popen_shell command, Print_executed command]
      else [Popen_shell command, Print_failed command])"

text \<open>\<open>str\<close> of an integer, as the f-string \<open>f"{f}_{direction}"\<close> formats the finger count.\<close>

fun str_nat :: "nat \<Rightarrow> string" where
  "str_nat n =
     (if n < 10 then [char_of (48 + n)]
      else str_nat (n div 10) @ [char_of (48 + n mod 10)])"

declare str_nat.simps [simp del]

definition str_int :: "int \<Rightarrow> string" where
  "str_int i = (if i < 0 then CHR ''-'' # str_nat (nat (- i)) else str_nat (nat i))"

definition gesture_key :: "int \<Rightarrow> string \<Rightarrow> string" where
  "gesture_key f direction = str_int f @ ''_'' @ direction"

text \<open>
  The tail of the loop body once \<open>collector.end\<close> has returned \<open>(f, dx, dy)\<close> and the
  direction is known (lines 193 to 203). \<open>not direction\<close> holds for \<open>None\<close> and for the
  empty string; \<open>if cmd\<close> fails for a missing key and for an empty command.
\<close>

definition dispatch ::
  "config \<Rightarrow> (string \<Rightarrow> bool) \<Rightarrow> bool \<Rightarrow> int \<Rightarrow> real \<Rightarrow> real \<Rightarrow> string option \<Rightarrow> event list" where
  "dispatch cfg launch dry_run f dx dy direction =
     (case direction of
        None \<Rightarrow> [Print_ignored f dx dy]
      | Some d \<Rightarrow>
          if d = [] then [Print_ignored f dx dy]
          else
            (let key = gesture_key f d in
             case cfg_gestures cfg key of
               None \<Rightarrow> [Print_detected f d key, Print_no_mapping key]
             | Some cmd \<Rightarrow>
                 if cmd = [] then [Print_detected f d key, Print_no_mapping key]
                 else Print_detected f d key # execute_action launch cmd dry_run))"

text \<open>The events that start a mapped command, really or as a dry run.\<close>

fun is_invocation :: "event \<Rightarrow> bool" where
  "is_invocation (Print_would_execute c) = True"
| "is_invocation (Popen_shell c) = True"
| "is_invocation e = False"

definition invocations :: "event list \<Rightarrow> nat" where
  "invocations evs = length (filter is_invocation evs)"


section \<open>Parsing a line of \<open>libinput debug-events\<close>\<close>

text \<open>
  The three patterns use only a literal, an unbracketed greedy star of a character class
  (\<open>.*\<close>, \<open>\s*\<close>) and a capturing group around a greedy plus of a character class
  (\<open>(\d+)\<close>, \<open>([\-0-9\.]+)\<close>). A pattern is a list of such items. A \<^typ>\<open>char\<close> stands for
  a code point below 256.
\<close>

datatype rx_item =
  Lit string
| Star "char \<Rightarrow> bool"
| Group_plus "char \<Rightarrow> bool"

text \<open>
  \<open>try_down f lo n\<close> tries the repetition counts \<open>n\<close>, \<open>n - 1\<close>, and so on down to \<open>lo\<close>, and
  returns the first success: a greedy quantifier takes the longest run first and gives
  characters back one at a time.
\<close>

fun try_down :: "(nat \<Rightarrow> 'a option) \<Rightarrow> nat \<Rightarrow> nat \<Rightarrow> 'a option" where
  "try_down f lo 0 = (if 0 < lo then None else f 0)"
| "try_down f lo (Suc n) =
     (if Suc n < lo then None
      else case f (Suc n) of Some r \<Rightarrow> Some r | None \<Rightarrow> try_down f lo n)"

text \<open>Matching a pattern at the start of the text; the result is the list of groups.\<close>

primrec rx_match :: "rx_item list \<Rightarrow> string \<Rightarrow> string list option" where
  "rx_match [] s = Some []"
| "rx_match (it # its) s =
     (case it of
        Lit l \<Rightarrow>
          if take (length l) s = l then rx_match its (drop (length l) s) else None
      | Star p \<Rightarrow>
          try_down (\<lambda>k. rx_match its (drop k s)) 0 (length (takeWhile p s))
      | Group_plus p \<Rightarrow>
          try_down (\<lambda>k. map_option ((#) (take k s)) (rx_match its (drop k s)))
            1 (length (takeWhile p s)))"

text \<open>\<open>pattern.search\<close>: the match at the leftmost position where there is one.\<close>

fun rx_search :: "rx_item list \<Rightarrow> string \<Rightarrow> string list option" where
  "rx_search its [] = rx_match its []"
| "rx_search its (c # cs) =
     (case rx_match its (c # cs) of Some g \<Rightarrow> Some g | None \<Rightarrow> rx_search its cs)"

text \<open>\<open>m.group(i)\<close>, which raises \<open>IndexError\<close> for a group the pattern does not have.\<close>

definition group :: "string list \<Rightarrow> nat \<Rightarrow> error + string" where
  "group g i = (if 1 \<le> i \<and> i \<le> length g then Inr (g ! (i - 1)) else Inl IndexError)"

definition is_digit :: "char \<Rightarrow> bool" where
  "is_digit c = (48 \<le> (of_char c :: nat) \<and> (of_char c :: nat) \<le> 57)"

text \<open>Whitespace as \<open>\s\<close> and \<open>str.strip\<close> see it, among the code points below 256.\<close>

definition is_space :: "char \<Rightarrow> bool" where
  "is_space c =
     (let n = (of_char c :: nat) in
      (9 \<le> n \<and> n \<le> 13) \<or> (28 \<le> n \<and> n \<le> 32) \<or> n = 133 \<or> n = 160)"

definition not_newline :: "char \<Rightarrow> bool" where
  "not_newline c = (c \<noteq> CHR 0x0A)"

definition is_delta_char :: "char \<Rightarrow> bool" where
  "is_delta_char c = (c = CHR ''-'' \<or> is_digit c \<or> c = CHR ''.'')"

definition LINE_RE_GESTURE_BEGIN :: "rx_item list" where
  "LINE_RE_GESTURE_BEGIN =
     [Lit ''GESTURE_SWIPE_BEGIN'', Star not_newline, Lit ''n_fingers'', Star is_space,
      Group_plus is_digit]"

definition LINE_RE_GESTURE_UPDATE :: "rx_item list" where
  "LINE_RE_GESTURE_UPDATE =
     [Lit ''GESTURE_SWIPE_UPDATE'', Star not_newline, Lit ''delta'', Star is_space,
      Group_plus is_delta_char, Star is_space, Group_plus is_delta_char]"

definition LINE_RE_GESTURE_END :: "rx_item list" where
  "LINE_RE_GESTURE_END =
     [Lit ''GESTURE_SWIPE_END'', Star not_newline, Lit ''n_fingers'', Star is_space,
      Group_plus is_digit]"

definition strip :: "string \<Rightarrow> string" where
  "strip s = dropWhile is_space (rev (dropWhile is_space (rev s)))"

text \<open>The value of a run of decimal digits.\<close>

definition digits_val :: "string \<Rightarrow> nat" where
  "digits_val s = foldl (\<lambda>a c. 10 * a + ((of_char c :: nat) - 48)) 0 s"

text \<open>\<open>int(text)\<close> on a text of digits (the group \<open>(\d+)\<close>); the length limit is left out.\<close>

definition py_int :: "string \<Rightarrow> int" where
  "py_int s = int (digits_val s)"

text \<open>
  \<open>float(text)\<close> on a text over the characters \<open>-\<close>, \<open>0\<close> to \<open>9\<close> and \<open>.\<close> (the group
  \<open>([\-0-9\.]+)\<close>): an optional minus sign, then digits with at most one point and at
  least one digit. Anything else raises \<open>ValueError\<close>.
\<close>

definition py_float :: "string \<Rightarrow> error + real" where
  "py_float s =
     (let body = (case s of [] \<Rightarrow> [] | c # cs \<Rightarrow> if c = CHR ''-'' then cs else s);
          sign = (case s of [] \<Rightarrow> 1 | c # cs \<Rightarrow> if c = CHR ''-'' then - 1 else (1 :: real));
          ip = takeWhile is_digit body;
          rest = dropWhile is_digit body
      in case rest of
           [] \<Rightarrow> if ip = [] then Inl (ValueError s) else Inr (sign * real (digits_val ip))
         | c # fp \<Rightarrow>
             if c = CHR ''.'' \<and> list_all is_digit fp \<and> \<not> (ip = [] \<and> fp = [])
             then Inr (sign * (real (digits_val ip) + real (digits_val fp) / 10 ^ length fp))
             else Inl (ValueError s))"



section \<open>The run loop\<close>

text \<open>
  The branch of the loop body for a matched end line (lines 187 to 203): a stray end is
  skipped, otherwise the snapshot is classified and dispatched, once \<open>collector.end\<close>
  has returned.
\<close>

definition on_end ::
  "config \<Rightarrow> (string \<Rightarrow> bool) \<Rightarrow> bool \<Rightarrow> int \<Rightarrow> collector
     \<Rightarrow> (collector \<times> event list) outcome" where
  "on_end cfg launch dry_run n st =
     (case collector_end n st of
        Returns (None, st') \<Rightarrow> Returns (st', [])
      | Returns (Some (f, dx, dy), st') \<Rightarrow>
          Returns (st', dispatch cfg launch dry_run f dx dy
                          (determine_direction dx dy (cfg_threshold cfg)))
      | Raises e \<Rightarrow> Raises e
      | Blocks \<Rightarrow> Blocks)"

text \<open>One iteration of \<open>for raw_line in proc.stdout\<close>, at clock value \<open>now\<close>.\<close>

definition loop_body ::
  "config \<Rightarrow> (string \<Rightarrow> bool) \<Rightarrow> bool \<Rightarrow> real \<Rightarrow> string \<Rightarrow> collector
     \<Rightarrow> (collector \<times> event list) outcome" where
  "loop_body cfg launch dry_run now raw_line st =
     (let line = strip raw_line in
      case rx_search LINE_RE_GESTURE_BEGIN line of
        Some m \<Rightarrow>
          (case group m 1 of
             Inl e \<Rightarrow> Raises e
           | Inr g1 \<Rightarrow> Returns (collector_begin now (py_int g1) st, []))
      | None \<Rightarrow>
          (case rx_search LINE_RE_GESTURE_UPDATE line of
             Some m2 \<Rightarrow>
               (case group m2 1 of
                  Inl e \<Rightarrow> Raises e
                | Inr g1 \<Rightarrow>
                    (case py_float g1 of
                       Inl e \<Rightarrow> Raises e
                     | Inr dx \<Rightarrow>
                         (case group m2 2 of
                            Inl e \<Rightarrow> Raises e
                          | Inr g2 \<Rightarrow>
                              (case py_float g2 of
                                 Inl e \<Rightarrow> Raises e
                               | Inr dy \<Rightarrow> Returns (collector_update now dx dy st, [])))))
           | None \<Rightarrow>
               (case rx_search LINE_RE_GESTURE_END line of
                  Some m3 \<Rightarrow>
                    (case group m3 1 of
                       Inl e \<Rightarrow> Raises e
                     | Inr g1 \<Rightarrow> on_end cfg launch dry_run (py_int g1) st)
                | None \<Rightarrow> Returns (st, []))))"

text \<open>
  How the read loop is left: the stream ran out, the handler for \<open>Exception\<close> ran, or the
  thread waits forever inside an iteration.
\<close>

datatype loop_exit =
  Stream_ended
| Handler_ran error
| Blocked

text \<open>
  The loop over the lines the producer writes, each paired with the clock value at which
  it is handled. The \<open>try\<close> statement encloses the whole loop: the first exception leaves
  the loop, is printed, and the producer is terminated; the remaining lines are never
  read. An iteration that blocks is the last one as well, and nothing is printed. A
  keyboard interrupt and a failing read of the stream are not inputs of this model.
\<close>

fun run_lines ::
  "config \<Rightarrow> (string \<Rightarrow> bool) \<Rightarrow> bool \<Rightarrow> (real \<times> string) list \<Rightarrow> collector
     \<Rightarrow> collector \<times> event list \<times> loop_exit" where
  "run_lines cfg launch dry_run [] st = (st, [], Stream_ended)"
| "run_lines cfg launch dry_run ((now, raw_line) # rest) st =
     (case loop_body cfg launch dry_run now raw_line st of
        Raises e \<Rightarrow> (st, [Print_error e, Proc_terminate], Handler_ran e)
      | Blocks \<Rightarrow> (st, [], Blocked)
      | Returns (st', evs) \<Rightarrow>
          (case run_lines cfg launch dry_run rest st' of
             (st'', evs', r) \<Rightarrow> (st'', evs @ evs', r)))"

text \<open>\<open>run_daemon\<close> with the configuration already loaded.\<close>

definition run_daemon ::
  "config \<Rightarrow> (string \<Rightarrow> bool) \<Rightarrow> bool \<Rightarrow> (real \<times> string) list
     \<Rightarrow> collector \<times> event list \<times> loop_exit" where
  "run_daemon cfg launch dry_run input =
     (case run_lines cfg launch dry_run input collector_init of
        (st, evs, r) \<Rightarrow> (st, Print_listening # evs, r))"

text \<open>The number of capturing groups of a pattern.\<close>

fun groups_of :: "rx_item list \<Rightarrow> nat" where
  "groups_of [] = 0"
| "groups_of (Group_plus p # its) = Suc (groups_of its)"
| "groups_of (it # its) = groups_of its"

text \<open>The configuration of the dispatch example: one mapped gesture.\<close>

definition example_config :: config where
  "example_config = \<lparr>cfg_threshold = default_threshold, cfg_gestures = [''3_left'' \<mapsto> ''cmd-A'']\<rparr>"


section \<open>Properties of the collector\<close>

lemma collector_begin_fields:
  "active (collector_begin now n s)"
  "fingers (collector_begin now n s) = n"
  "total_dx (collector_begin now n s) = 0"
  "total_dy (collector_begin now n s) = 0"
  by (simp_all add: collector_begin_def)

text \<open>While a gesture is in flight, a run of updates keeps it in flight and adds up.\<close>

lemma collector_updates_active:
  "active s \<Longrightarrow>
     active (collector_updates us s) \<and>
     total_dx (collector_updates us s) = total_dx s + sum_list (map (\<lambda>(now, dx, dy). dx) us) \<and>
     total_dy (collector_updates us s) = total_dy s + sum_list (map (\<lambda>(now, dx, dy). dy) us)"
proof (induction us arbitrary: s)
  case Nil
  then show ?case by simp
next
  case (Cons u us)
  obtain now dx dy where u: "u = (now, dx, dy)" by (cases u)
  let ?s' = "collector_update now dx dy s"
  from Cons.prems have a: "active ?s'" by (simp add: collector_update_def)
  from Cons.prems have t: "total_dx ?s' = total_dx s + dx" "total_dy ?s' = total_dy s + dy"
    by (simp_all add: collector_update_def)
  from Cons.IH [OF a] show ?case by (simp add: u t)
qed

text \<open>
  C7. In every prior state, \<open>begin(fingerCount)\<close> sets the session active, records the
  finger count and resets both totals to 0 (and stamps the time): nothing of the prior
  session survives.
\<close>

theorem begin_unconditional:
  "collector_begin now n s =
     \<lparr>active = True, fingers = n, total_dx = 0, total_dy = 0, last_time = Some now\<rparr>"
  by (simp add: collector_begin_def)

text \<open>The instance \<open>begin(3); update(10,5); begin(4)\<close>: finger count 4, totals 0.\<close>

theorem begin_unconditional_witness:
  "collector_begin 2 4 (collector_update 1 10 5 (collector_begin 0 3 collector_init)) =
     \<lparr>active = True, fingers = 4, total_dx = 0, total_dy = 0, last_time = Some 2\<rparr>"
  using begin_unconditional [of 2 4 "collector_update 1 10 5 (collector_begin 0 3 collector_init)"]
  by simp

text \<open>
  C8. When the session is not active, \<open>update\<close> leaves the whole state unchanged, and
  \<open>end\<close> returns no result, leaves the state unchanged and dispatches nothing (the loop
  body emits no event). Hence a second consecutive \<open>end\<close> returns no result either, and a
  \<open>begin\<close> after a stray \<open>update\<close> starts a zeroed session.
\<close>

theorem inactive_update_end_ignored:
  assumes "\<not> active s"
  shows "collector_update now dx dy s = s
       \<and> collector_end n s = Returns (None, s)
       \<and> on_end cfg launch dry_run n s = Returns (s, [])
       \<and> (case collector_end n s of
             Returns (r, s') \<Rightarrow> collector_end m s'
           | Raises e \<Rightarrow> Raises e
           | Blocks \<Rightarrow> Blocks) = Returns (None, s)
       \<and> collector_begin now' k (collector_update now dx dy s) =
           \<lparr>active = True, fingers = k, total_dx = 0, total_dy = 0, last_time = Some now'\<rparr>"
  using assms
  by (simp add: collector_update_def collector_end_def on_end_def collector_begin_def)

theorem inactive_update_end_ignored_witness:
  "\<not> active collector_init
   \<and> collector_update 1 5 5 collector_init = collector_init
   \<and> collector_end 3 collector_init = Returns (None, collector_init)
   \<and> on_end example_config (\<lambda>c. True) False 3 collector_init = Returns (collector_init, [])
   \<and> (case collector_end 3 collector_init of
         Returns (r, s') \<Rightarrow> collector_end 4 s'
       | Raises e \<Rightarrow> Raises e
       | Blocks \<Rightarrow> Blocks) = Returns (None, collector_init)
   \<and> collector_begin 2 4 (collector_update 1 5 5 collector_init) =
       \<lparr>active = True, fingers = 4, total_dx = 0, total_dy = 0, last_time = Some 2\<rparr>"
proof -
  have h: "\<not> active collector_init" by (simp add: collector_init_def)
  from inactive_update_end_ignored [OF h, of 1 5 5 3 example_config "\<lambda>c. True" False 4 2 4] h
  show ?thesis by blast
qed


section \<open>Properties of the classifier\<close>

text \<open>What a result other than \<open>None\<close> says about the branch that produced it.\<close>

lemma determine_direction_Some:
  assumes "determine_direction dx dy th = Some d"
  shows "\<not> max \<bar>dx\<bar> \<bar>dy\<bar> < px_min th \<and>
         (\<bar>dy\<bar> * axis_ratio th \<le> \<bar>dx\<bar> \<and> d = (if 0 < dx then ''right'' else ''left'') \<or>
          \<not> \<bar>dy\<bar> * axis_ratio th \<le> \<bar>dx\<bar> \<and> \<bar>dx\<bar> * axis_ratio th \<le> \<bar>dy\<bar> \<and>
            d = (if 0 < dy then ''down'' else ''up''))"
proof -
  from assms have big: "\<not> max \<bar>dx\<bar> \<bar>dy\<bar> < px_min th"
    unfolding determine_direction_def Let_def by (auto split: if_splits)
  show ?thesis
  proof (cases "\<bar>dy\<bar> * axis_ratio th \<le> \<bar>dx\<bar>")
    case True
    with assms big show ?thesis
      unfolding determine_direction_def Let_def by (simp split: if_splits)
  next
    case False
    with assms big show ?thesis
      unfolding determine_direction_def Let_def by (simp split: if_splits)
  qed
qed

text \<open>
  C5. For every displacement with \<open>max(|dx|, |dy|) < minMagnitude\<close> the classifier
  returns \<open>None\<close>, whatever the axis-dominance ratio.
\<close>

theorem below_min_magnitude_none:
  "max \<bar>dx\<bar> \<bar>dy\<bar> < px_min th \<Longrightarrow> determine_direction dx dy th = None"
  by (simp add: determine_direction_def Let_def)

theorem below_min_magnitude_none_witness:
  "max \<bar>10\<bar> \<bar>- 49\<bar> < px_min default_threshold
   \<and> determine_direction 10 (- 49) default_threshold = None"
proof -
  have h: "max \<bar>10\<bar> \<bar>- 49\<bar> < px_min default_threshold"
    by (simp add: default_threshold_def)
  from below_min_magnitude_none [OF h] h show ?thesis by simp
qed

text \<open>
  C4. For every displacement with \<open>max(|dx|, |dy|) >= minMagnitude\<close>: if
  \<open>|dx| >= |dy| * axisDominanceRatio\<close> the classifier returns \<open>right\<close> when \<open>dx > 0\<close> and
  \<open>left\<close> otherwise; else if \<open>|dy| >= |dx| * axisDominanceRatio\<close> it returns \<open>down\<close> when
  \<open>dy > 0\<close> and \<open>up\<close> otherwise.
\<close>

theorem dominant_axis_direction:
  assumes "px_min th \<le> max \<bar>dx\<bar> \<bar>dy\<bar>"
  shows "(\<bar>dy\<bar> * axis_ratio th \<le> \<bar>dx\<bar> \<longrightarrow>
            determine_direction dx dy th = Some (if 0 < dx then ''right'' else ''left''))
       \<and> (\<not> \<bar>dy\<bar> * axis_ratio th \<le> \<bar>dx\<bar> \<and> \<bar>dx\<bar> * axis_ratio th \<le> \<bar>dy\<bar> \<longrightarrow>
            determine_direction dx dy th = Some (if 0 < dy then ''down'' else ''up''))"
proof -
  from assms have "\<not> max \<bar>dx\<bar> \<bar>dy\<bar> < px_min th" by linarith
  then have big: "(max \<bar>dx\<bar> \<bar>dy\<bar> < px_min th) = False" by simp
  show ?thesis unfolding determine_direction_def Let_def big by simp
qed

text \<open>The instances \<open>(100, 0)\<close>, \<open>(-100, 0)\<close> and \<open>(0, 100)\<close> with \<open>min = 50\<close>, \<open>ratio = 1.5\<close>.\<close>

theorem dominant_axis_direction_witness:
  "px_min default_threshold \<le> max \<bar>100\<bar> \<bar>0\<bar>
   \<and> determine_direction 100 0 default_threshold = Some ''right''
   \<and> determine_direction (- 100) 0 default_threshold = Some ''left''
   \<and> determine_direction 0 100 default_threshold = Some ''down''"
proof -
  have h: "px_min default_threshold \<le> max \<bar>100\<bar> \<bar>0\<bar>"
    and h': "px_min default_threshold \<le> max \<bar>- 100\<bar> \<bar>0\<bar>"
    and h'': "px_min default_threshold \<le> max \<bar>0\<bar> \<bar>100\<bar>"
    by (simp_all add: default_threshold_def)
  from dominant_axis_direction [OF h] dominant_axis_direction [OF h']
    dominant_axis_direction [OF h''] h
  show ?thesis by (simp add: default_threshold_def)
qed

text \<open>
  C10. For every displacement and every threshold with \<open>minMagnitude > 0\<close> and
  \<open>axisDominanceRatio >= 1\<close>: a result \<open>right\<close> or \<open>left\<close> means \<open>|dx| >= minMagnitude\<close>
  and \<open>|dx| >= |dy|\<close>; a result \<open>down\<close> or \<open>up\<close> means \<open>|dy| >= minMagnitude\<close> and
  \<open>|dy| >= |dx|\<close>.
\<close>

theorem selected_axis_is_larger:
  assumes "0 < px_min th" and "1 \<le> axis_ratio th"
  shows "(determine_direction dx dy th = Some ''right'' \<or>
          determine_direction dx dy th = Some ''left''
            \<longrightarrow> px_min th \<le> \<bar>dx\<bar> \<and> \<bar>dy\<bar> \<le> \<bar>dx\<bar>)
       \<and> (determine_direction dx dy th = Some ''down'' \<or>
          determine_direction dx dy th = Some ''up''
            \<longrightarrow> px_min th \<le> \<bar>dy\<bar> \<and> \<bar>dx\<bar> \<le> \<bar>dy\<bar>)"
proof -
  have le: "a \<le> a * axis_ratio th" if "0 \<le> a" for a
    using that assms(2) by (simp add: mult_le_cancel_left1)
  have lx: "\<bar>dx\<bar> \<le> \<bar>dx\<bar> * axis_ratio th" and ly: "\<bar>dy\<bar> \<le> \<bar>dy\<bar> * axis_ratio th"
    by (rule le, simp)+
  have horiz: "px_min th \<le> \<bar>dx\<bar> \<and> \<bar>dy\<bar> \<le> \<bar>dx\<bar>"
    if "determine_direction dx dy th = Some d" and "d = ''right'' \<or> d = ''left''" for d
  proof -
    from determine_direction_Some [OF that(1)] that(2)
    have "\<not> max \<bar>dx\<bar> \<bar>dy\<bar> < px_min th" and "\<bar>dy\<bar> * axis_ratio th \<le> \<bar>dx\<bar>"
      by (auto split: if_splits)
    with ly show ?thesis by linarith
  qed
  have vert: "px_min th \<le> \<bar>dy\<bar> \<and> \<bar>dx\<bar> \<le> \<bar>dy\<bar>"
    if "determine_direction dx dy th = Some d" and "d = ''down'' \<or> d = ''up''" for d
  proof -
    from determine_direction_Some [OF that(1)] that(2)
    have "\<not> max \<bar>dx\<bar> \<bar>dy\<bar> < px_min th" and "\<bar>dx\<bar> * axis_ratio th \<le> \<bar>dy\<bar>"
      by (auto split: if_splits)
    with lx show ?thesis by linarith
  qed
  from horiz vert show ?thesis by blast
qed

theorem selected_axis_is_larger_witness:
  "0 < px_min default_threshold \<and> 1 \<le> axis_ratio default_threshold
   \<and> determine_direction (- 90) 60 default_threshold = Some ''left''
   \<and> px_min default_threshold \<le> \<bar>- 90\<bar> \<and> \<bar>60 :: real\<bar> \<le> \<bar>- 90\<bar>
   \<and> determine_direction 20 (- 80) default_threshold = Some ''up''
   \<and> px_min default_threshold \<le> \<bar>- 80\<bar> \<and> \<bar>20 :: real\<bar> \<le> \<bar>- 80\<bar>"
proof -
  have h: "0 < px_min default_threshold" and h': "1 \<le> axis_ratio default_threshold"
    by (simp_all add: default_threshold_def)
  have l: "determine_direction (- 90) 60 default_threshold = Some ''left''"
    and u: "determine_direction 20 (- 80) default_threshold = Some ''up''"
    by (simp_all add: determine_direction_def default_threshold_def)
  from selected_axis_is_larger [OF h h', of "- 90" 60] selected_axis_is_larger [OF h h', of 20 "- 80"]
    h h' l u
  show ?thesis by blast
qed












text \<open>
  C2, as amended. For every displacement with \<open>|dx| = |dy|\<close> and
  \<open>max(|dx|, |dy|) >= minMagnitude\<close>, when the axis-dominance ratio is exactly 1 the
  comparison \<open>|dx| >= |dy| * ratio\<close> holds, so the horizontal axis is selected: the
  classifier returns \<open>right\<close> when \<open>dx > 0\<close> and \<open>left\<close> otherwise.
\<close>

theorem diagonal_ratio_one_horizontal:
  assumes "\<bar>dx\<bar> = \<bar>dy\<bar>" and "px_min th \<le> max \<bar>dx\<bar> \<bar>dy\<bar>" and "axis_ratio th = 1"
  shows "determine_direction dx dy th = Some (if 0 < dx then ''right'' else ''left'')"
  using assms by (simp add: determine_direction_def Let_def)

theorem diagonal_ratio_one_horizontal_witness:
  "\<bar>- 70\<bar> = \<bar>70 :: real\<bar> \<and> px_min \<lparr>px_min = 50, axis_ratio = 1\<rparr> \<le> max \<bar>- 70\<bar> \<bar>70\<bar>
   \<and> axis_ratio \<lparr>px_min = 50, axis_ratio = 1\<rparr> = 1
   \<and> determine_direction (- 70) 70 \<lparr>px_min = 50, axis_ratio = 1\<rparr> = Some ''left''"
proof -
  have h1: "\<bar>- 70\<bar> = \<bar>70 :: real\<bar>" by simp
  have h2: "px_min \<lparr>px_min = 50, axis_ratio = 1\<rparr> \<le> max \<bar>- 70\<bar> \<bar>70\<bar>" by simp
  have h3: "axis_ratio \<lparr>px_min = 50, axis_ratio = 1\<rparr> = 1" by simp
  from diagonal_ratio_one_horizontal [OF h1 h2 h3] h1 h2 h3 show ?thesis by simp
qed

text \<open>
  The claim C2 as stated fails: a perfectly diagonal swipe of magnitude 100 with
  \<open>min = 50\<close> and ratio exactly 1 is classified as \<open>right\<close>, not \<open>None\<close>.
\<close>

theorem diagonal_ratio_one_counterexample:
  "\<bar>100\<bar> = \<bar>100 :: real\<bar> \<and> px_min \<lparr>px_min = 50, axis_ratio = 1\<rparr> \<le> max \<bar>100\<bar> \<bar>100\<bar>
   \<and> axis_ratio \<lparr>px_min = 50, axis_ratio = 1\<rparr> = 1
   \<and> determine_direction 100 100 \<lparr>px_min = 50, axis_ratio = 1\<rparr> \<noteq> None
   \<and> determine_direction 100 100 \<lparr>px_min = 50, axis_ratio = 1\<rparr> = Some ''right''"
  by (simp add: determine_direction_def)


section \<open>Properties of the dispatch\<close>

lemma key_3_left: "gesture_key 3 ''left'' = ''3_left''"
  by code_simp

lemma key_3_right: "gesture_key 3 ''right'' = ''3_right''"
  by code_simp

text \<open>
  C9, as amended. For every finished gesture with a direction \<open>d\<close> that is not \<open>None\<close>
  (the classifier's directions are non-empty strings): if the key \<open>f_d\<close> is mapped to a
  non-empty command, the trace is the detection message followed by one run of
  \<open>execute_action\<close> on that command, which starts it exactly once; if the key is absent,
  the trace is the detection message and the no-mapping message, and nothing is started.
  For the direction \<open>None\<close> the trace is the too-small message alone. The result is a
  trace in every case: no branch raises.
\<close>

theorem dispatch_mapped_or_reported:
  assumes "d \<noteq> []"
  shows "(cfg_gestures cfg (gesture_key f d) = Some c \<and> c \<noteq> [] \<longrightarrow>
            dispatch cfg launch dry_run f dx dy (Some d) =
              Print_detected f d (gesture_key f d) # execute_action launch c dry_run
            \<and> invocations (dispatch cfg launch dry_run f dx dy (Some d)) = 1)
       \<and> (cfg_gestures cfg (gesture_key f d) = None \<longrightarrow>
            dispatch cfg launch dry_run f dx dy (Some d) =
              [Print_detected f d (gesture_key f d), Print_no_mapping (gesture_key f d)]
            \<and> invocations (dispatch cfg launch dry_run f dx dy (Some d)) = 0)
       \<and> dispatch cfg launch dry_run f dx dy None = [Print_ignored f dx dy]"
  using assms
  by (simp add: dispatch_def Let_def invocations_def execute_action_def)

text \<open>
  The instance with the mapping \<open>3_left\<close> to \<open>cmd-A\<close>: \<open>(3, left)\<close> starts \<open>cmd-A\<close> once,
  \<open>(3, right)\<close> reports the missing mapping and starts nothing.
\<close>

theorem dispatch_mapped_or_reported_witness:
  "''left'' \<noteq> [] \<and> cfg_gestures example_config (gesture_key 3 ''left'') = Some ''cmd-A''
   \<and> dispatch example_config (\<lambda>c. True) False 3 (- 100) 0 (Some ''left'') =
       [Print_detected 3 ''left'' ''3_left'', Popen_shell ''cmd-A'', Print_executed ''cmd-A'']
   \<and> invocations (dispatch example_config (\<lambda>c. True) False 3 (- 100) 0 (Some ''left'')) = 1
   \<and> cfg_gestures example_config (gesture_key 3 ''right'') = None
   \<and> dispatch example_config (\<lambda>c. True) False 3 100 0 (Some ''right'') =
       [Print_detected 3 ''right'' ''3_right'', Print_no_mapping ''3_right'']
   \<and> invocations (dispatch example_config (\<lambda>c. True) False 3 100 0 (Some ''right'')) = 0"
proof -
  have h: "''left'' \<noteq> []" and h': "''right'' \<noteq> []" by simp_all
  have l: "cfg_gestures example_config (gesture_key 3 ''left'') = Some ''cmd-A''"
    and r: "cfg_gestures example_config (gesture_key 3 ''right'') = None"
    by (simp_all add: example_config_def key_3_left key_3_right)
  from dispatch_mapped_or_reported
         [OF h, of example_config 3 "''cmd-A''" "\<lambda>c. True" False "- 100" 0]
       dispatch_mapped_or_reported
         [OF h', of example_config 3 "''cmd-A''" "\<lambda>c. True" False 100 0]
       l r
  show ?thesis by (simp add: key_3_left key_3_right execute_action_def invocations_def)
qed

text \<open>
  The claim C9 as stated fails for a key that is present with an empty command: the
  key \<open>3_left\<close> is in the mapping, yet \<open>(3, left)\<close> starts nothing and is reported as
  having no mapping.
\<close>

theorem dispatch_present_key_counterexample:
  "gesture_key 3 ''left'' \<in> dom [''3_left'' \<mapsto> []]
   \<and> dispatch \<lparr>cfg_threshold = default_threshold, cfg_gestures = [''3_left'' \<mapsto> []]\<rparr>
       (\<lambda>c. True) False 3 (- 100) 0 (Some ''left'')
     = [Print_detected 3 ''left'' ''3_left'', Print_no_mapping ''3_left'']
   \<and> invocations
       (dispatch \<lparr>cfg_threshold = default_threshold, cfg_gestures = [''3_left'' \<mapsto> []]\<rparr>
          (\<lambda>c. True) False 3 (- 100) 0 (Some ''left'')) = 0"
  by (simp add: key_3_left dispatch_def Let_def invocations_def)


section \<open>Properties of the run loop\<close>

text \<open>
  A successful match returns one text per capturing group, so \<open>group(1)\<close> and \<open>group(2)\<close>
  of an update match never raise.
\<close>

lemma try_down_Some: "try_down f lo n = Some r \<Longrightarrow> \<exists>k. f k = Some r"
  by (induction n) (auto split: if_splits option.splits)

lemma rx_match_groups: "rx_match its s = Some g \<Longrightarrow> length g = groups_of its"
proof (induction its arbitrary: s g)
  case Nil
  then show ?case by simp
next
  case (Cons it its)
  show ?case
  proof (cases it)
    case (Lit l)
    with Cons show ?thesis by (auto split: if_splits)
  next
    case (Star p)
    with Cons.prems obtain k where "rx_match its (drop k s) = Some g"
      by (auto dest: try_down_Some)
    with Cons.IH Star show ?thesis by simp
  next
    case (Group_plus p)
    with Cons.prems obtain k g' where "rx_match its (drop k s) = Some g'" "g = take k s # g'"
      by (auto dest!: try_down_Some)
    with Cons.IH Group_plus show ?thesis by simp
  qed
qed

lemma rx_search_groups: "rx_search its s = Some g \<Longrightarrow> length g = groups_of its"
  by (induction s) (auto split: option.splits dest: rx_match_groups)

lemma update_match_two_groups:
  assumes "rx_search LINE_RE_GESTURE_UPDATE s = Some g"
  shows "\<exists>g1 g2. g = [g1, g2]"
proof -
  from assms have "length g = 2"
    by (auto dest!: rx_search_groups simp: LINE_RE_GESTURE_UPDATE_def)
  then show ?thesis
    by (cases g; cases "tl g"; auto)
qed

text \<open>The captured fields of the example lines, evaluated.\<close>

lemma float_bad_points: "py_float ''1.2.3'' = Inl (ValueError ''1.2.3'')"
  by (simp add: py_float_def is_digit_def)

lemma float_bad_minus: "py_float ''-'' = Inl (ValueError ''-'')"
  by (simp add: py_float_def is_digit_def)

lemma float_4: "py_float ''4'' = Inr 4"
  by (simp add: py_float_def is_digit_def digits_val_def)

lemma bad_points_not_begin:
  "rx_search LINE_RE_GESTURE_BEGIN (strip ''GESTURE_SWIPE_UPDATE delta 1.2.3 4'') = None"
  by code_simp

lemma bad_points_update:
  "rx_search LINE_RE_GESTURE_UPDATE (strip ''GESTURE_SWIPE_UPDATE delta 1.2.3 4'') =
     Some [''1.2.3'', ''4'']"
  by code_simp

lemma bad_minus_not_begin:
  "rx_search LINE_RE_GESTURE_BEGIN (strip ''GESTURE_SWIPE_UPDATE delta 4 -'') = None"
  by code_simp

lemma bad_minus_update:
  "rx_search LINE_RE_GESTURE_UPDATE (strip ''GESTURE_SWIPE_UPDATE delta 4 -'') =
     Some [''4'', ''-'']"
  by code_simp

lemma begin_3_line:
  "rx_search LINE_RE_GESTURE_BEGIN (strip ''GESTURE_SWIPE_BEGIN n_fingers 3'') = Some [''3'']"
  by code_simp

text \<open>
  C1, as amended. For every input line that matches the update pattern (and not the
  begin pattern, which is tried first) and whose first captured field, or whose second
  after a valid first, is not a valid float: \<open>float\<close> raises \<open>ValueError\<close>, the exception
  leaves the read loop, the handler prints the error and terminates the producer, the
  collector is left as it was, and no later line is read.
\<close>

theorem malformed_delta_ends_loop:
  assumes "rx_search LINE_RE_GESTURE_BEGIN (strip raw_line) = None"
    and "rx_search LINE_RE_GESTURE_UPDATE (strip raw_line) = Some [g1, g2]"
  shows "(py_float g1 = Inl e \<longrightarrow>
            run_lines cfg launch dry_run ((now, raw_line) # rest) st =
              (st, [Print_error e, Proc_terminate], Handler_ran e))
       \<and> (py_float g1 = Inr x \<and> py_float g2 = Inl e \<longrightarrow>
            run_lines cfg launch dry_run ((now, raw_line) # rest) st =
              (st, [Print_error e, Proc_terminate], Handler_ran e))"
  using assms by (simp add: loop_body_def group_def)

text \<open>Both fields in turn: \<open>1.2.3\<close> as the first field, \<open>-\<close> as the second.\<close>

theorem malformed_delta_ends_loop_witness:
  "rx_search LINE_RE_GESTURE_BEGIN (strip ''GESTURE_SWIPE_UPDATE delta 1.2.3 4'') = None
   \<and> rx_search LINE_RE_GESTURE_UPDATE (strip ''GESTURE_SWIPE_UPDATE delta 1.2.3 4'') =
       Some [''1.2.3'', ''4'']
   \<and> py_float ''1.2.3'' = Inl (ValueError ''1.2.3'')
   \<and> run_lines example_config (\<lambda>c. True) False
       [(1, ''GESTURE_SWIPE_UPDATE delta 1.2.3 4''), (2, ''GESTURE_SWIPE_END n_fingers 3'')]
       collector_init =
       (collector_init, [Print_error (ValueError ''1.2.3''), Proc_terminate],
        Handler_ran (ValueError ''1.2.3''))
   \<and> py_float ''4'' = Inr 4 \<and> py_float ''-'' = Inl (ValueError ''-'')
   \<and> run_lines example_config (\<lambda>c. True) False
       [(1, ''GESTURE_SWIPE_UPDATE delta 4 -''), (2, ''GESTURE_SWIPE_END n_fingers 3'')]
       collector_init =
       (collector_init, [Print_error (ValueError ''-''), Proc_terminate],
        Handler_ran (ValueError ''-''))"
  using malformed_delta_ends_loop [OF bad_points_not_begin bad_points_update,
      of "ValueError ''1.2.3''" example_config "\<lambda>c. True" False 1
         "[(2, ''GESTURE_SWIPE_END n_fingers 3'')]" collector_init 4]
    malformed_delta_ends_loop [OF bad_minus_not_begin bad_minus_update,
      of "ValueError ''-''" example_config "\<lambda>c. True" False 1
         "[(2, ''GESTURE_SWIPE_END n_fingers 3'')]" collector_init 4]
    bad_points_not_begin bad_points_update float_bad_points float_4 float_bad_minus
  by simp

text \<open>
  The claim C1 as stated fails: after \<open>begin(3)\<close>, the line with the field \<open>1.2.3\<close> ends
  the whole run. The two lines after it, a valid update and an end, are never handled:
  the trace holds no dispatch, the gesture is still in flight, and the loop was left
  through the exception handler.
\<close>

theorem malformed_delta_counterexample:
  "rx_search LINE_RE_GESTURE_UPDATE (strip ''GESTURE_SWIPE_UPDATE delta 1.2.3 4'') =
       Some [''1.2.3'', ''4'']
   \<and> py_float ''1.2.3'' = Inl (ValueError ''1.2.3'')
   \<and> run_daemon example_config (\<lambda>c. True) False
       [(0, ''GESTURE_SWIPE_BEGIN n_fingers 3''),
        (1, ''GESTURE_SWIPE_UPDATE delta 1.2.3 4''),
        (2, ''GESTURE_SWIPE_UPDATE delta -100 0''),
        (3, ''GESTURE_SWIPE_END n_fingers 3'')] =
       (collector_begin 0 3 collector_init,
        [Print_listening, Print_error (ValueError ''1.2.3''), Proc_terminate],
        Handler_ran (ValueError ''1.2.3''))"
proof -
  have b: "loop_body example_config (\<lambda>c. True) False 0 ''GESTURE_SWIPE_BEGIN n_fingers 3''
             collector_init = Returns (collector_begin 0 3 collector_init, [])"
    by (simp add: loop_body_def begin_3_line group_def py_int_def digits_val_def)
  have u: "loop_body example_config (\<lambda>c. True) False 1 ''GESTURE_SWIPE_UPDATE delta 1.2.3 4''
             (collector_begin 0 3 collector_init) = Raises (ValueError ''1.2.3'')"
    by (simp add: loop_body_def bad_points_not_begin bad_points_update group_def
        float_bad_points)
  show ?thesis
    by (simp add: run_daemon_def b u bad_points_update float_bad_points)
qed

text \<open>The lines of one three-finger swipe, evaluated.\<close>

lemma float_10: "py_float ''10'' = Inr 10"
  by (simp add: py_float_def is_digit_def digits_val_def)

lemma float_20: "py_float ''20'' = Inr 20"
  by (simp add: py_float_def is_digit_def digits_val_def)

lemma float_0: "py_float ''0'' = Inr 0"
  by (simp add: py_float_def is_digit_def digits_val_def)

lemma update_10_not_begin:
  "rx_search LINE_RE_GESTURE_BEGIN (strip ''GESTURE_SWIPE_UPDATE delta 10 0'') = None"
  by code_simp

lemma update_10_line:
  "rx_search LINE_RE_GESTURE_UPDATE (strip ''GESTURE_SWIPE_UPDATE delta 10 0'') =
     Some [''10'', ''0'']"
  by code_simp

lemma update_20_not_begin:
  "rx_search LINE_RE_GESTURE_BEGIN (strip ''GESTURE_SWIPE_UPDATE delta 20 0'') = None"
  by code_simp

lemma update_20_line:
  "rx_search LINE_RE_GESTURE_UPDATE (strip ''GESTURE_SWIPE_UPDATE delta 20 0'') =
     Some [''20'', ''0'']"
  by code_simp

lemma end_3_not_begin:
  "rx_search LINE_RE_GESTURE_BEGIN (strip ''GESTURE_SWIPE_END n_fingers 3'') = None"
  by code_simp

lemma end_3_not_update:
  "rx_search LINE_RE_GESTURE_UPDATE (strip ''GESTURE_SWIPE_END n_fingers 3'') = None"
  by code_simp

lemma end_3_line:
  "rx_search LINE_RE_GESTURE_END (strip ''GESTURE_SWIPE_END n_fingers 3'') = Some [''3'']"
  by code_simp

lemma collector_end_active: "active s \<Longrightarrow> collector_end n s = Blocks"
  by (simp add: collector_end_def collector_reset_def)

text \<open>
  C3. The claim is that \<open>begin(n)\<close>, any finite run of \<open>update(dx, dy)\<close> calls, then
  \<open>end(m)\<close> returns the snapshot \<open>(m, sum of the dx, sum of the dy)\<close> and leaves the
  session inactive. The code does not get there: on an active session \<open>end\<close> calls
  \<open>reset\<close> while it holds the lock that \<open>reset\<close> acquires, so for every \<open>n\<close>, every run
  of updates and every \<open>m\<close> the call never returns. The daemon fed the lines of
  \<open>begin(3); update(10,0); update(20,0); end(3)\<close> stops inside the last one, with the
  totals \<open>(30, 0)\<close> still in the session, nothing dispatched and the gesture still
  active.
\<close>

theorem end_of_active_session_blocks:
  "collector_end m (collector_updates us (collector_begin now n s)) = Blocks
   \<and> run_daemon example_config (\<lambda>c. True) False
       [(0, ''GESTURE_SWIPE_BEGIN n_fingers 3''),
        (1, ''GESTURE_SWIPE_UPDATE delta 10 0''),
        (2, ''GESTURE_SWIPE_UPDATE delta 20 0''),
        (3, ''GESTURE_SWIPE_END n_fingers 3'')] =
       (\<lparr>active = True, fingers = 3, total_dx = 30, total_dy = 0, last_time = Some 2\<rparr>,
        [Print_listening], Blocked)"
proof -
  have "active (collector_begin now n s)" by (rule collector_begin_fields)
  then have "active (collector_updates us (collector_begin now n s))"
    by (simp add: collector_updates_active)
  then have general: "collector_end m (collector_updates us (collector_begin now n s)) = Blocks"
    by (rule collector_end_active)
  have b: "loop_body example_config (\<lambda>c. True) False 0 ''GESTURE_SWIPE_BEGIN n_fingers 3'' st =
             Returns (collector_begin 0 3 st, [])" for st
    by (simp add: loop_body_def begin_3_line group_def py_int_def digits_val_def)
  have u1: "loop_body example_config (\<lambda>c. True) False 1 ''GESTURE_SWIPE_UPDATE delta 10 0'' st =
             Returns (collector_update 1 10 0 st, [])" for st
    by (simp add: loop_body_def update_10_not_begin update_10_line group_def float_10 float_0)
  have u2: "loop_body example_config (\<lambda>c. True) False 2 ''GESTURE_SWIPE_UPDATE delta 20 0'' st =
             Returns (collector_update 2 20 0 st, [])" for st
    by (simp add: loop_body_def update_20_not_begin update_20_line group_def float_20 float_0)
  have e: "loop_body example_config (\<lambda>c. True) False 3 ''GESTURE_SWIPE_END n_fingers 3'' st =
             on_end example_config (\<lambda>c. True) False 3 st" for st
    by (simp add: loop_body_def end_3_not_begin end_3_not_update end_3_line group_def
        py_int_def digits_val_def)
  have st: "collector_update 2 20 0 (collector_update 1 10 0 (collector_begin 0 3 collector_init)) =
              \<lparr>active = True, fingers = 3, total_dx = 30, total_dy = 0, last_time = Some 2\<rparr>"
    by (simp add: collector_update_def collector_begin_def collector_init_def)
  have blk: "on_end example_config (\<lambda>c. True) False 3
               \<lparr>active = True, fingers = 3, total_dx = 30, total_dy = 0, last_time = Some 2\<rparr> = Blocks"
    by (simp add: on_end_def collector_end_active)
  have "run_daemon example_config (\<lambda>c. True) False
       [(0, ''GESTURE_SWIPE_BEGIN n_fingers 3''),
        (1, ''GESTURE_SWIPE_UPDATE delta 10 0''),
        (2, ''GESTURE_SWIPE_UPDATE delta 20 0''),
        (3, ''GESTURE_SWIPE_END n_fingers 3'')] =
       (\<lparr>active = True, fingers = 3, total_dx = 30, total_dy = 0, last_time = Some 2\<rparr>,
        [Print_listening], Blocked)"
    by (simp add: run_daemon_def b u1 u2 e st blk)
  with general show ?thesis by simp
qed

end
